theory Spec2Isabelle
  imports Complex_Main
begin

section \<open>Python values, exceptions and the mutable world\<close>

text \<open>
  The module \<^verbatim>\<open>tensorpack/dataflow/imgaug/base.py\<close> defines three classes:
  \<^verbatim>\<open>ImageAugmentor\<close>, \<^verbatim>\<open>AugmentorList\<close> and \<^verbatim>\<open>PhotometricAugmentor\<close>.
  Their methods call hooks that subclasses may or may not define, draw from a random
  generator stored in the attribute \<^verbatim>\<open>rng\<close>, and raise exceptions. The model makes all
  three explicit: an optional hook is an \<open>option\<close>, the attribute store is a record that
  every computation takes and returns, and an exception is the left summand of the result.
\<close>

datatype exc =
    AttributeError
  | AssertionError string
  | RuntimeError string
  | OtherError string

text \<open>
  A bound of \<^verbatim>\<open>_rand_range\<close> is a Python number. The code never computes with the
  bounds, it only hands them to the generator, so a float is represented by the real it
  denotes (\<^verbatim>\<open>1.0\<close> is \<open>PyFloat 1\<close>).
\<close>

datatype pynum = PyInt int | PyFloat real

text \<open>
  The mutable world. Augmentor objects are named by their identity (a \<open>nat\<close>).
  \<^item> \<open>rng\<close>: the attribute \<^verbatim>\<open>self.rng\<close> of each object; \<open>None\<close> when the attribute is unset;
  \<^item> \<open>rng_calls\<close>: the arguments of the calls made to \<^verbatim>\<open>get_rng\<close> so far, oldest first;
  \<^item> \<open>fork_hooks\<close>: the objects whose after-fork callback has been registered;
  \<^item> \<open>warned\<close>: the messages \<^verbatim>\<open>log_once\<close> has emitted, oldest first.
\<close>

record 'r world =
  rng :: "nat \<rightharpoonup> 'r"
  rng_calls :: "nat list"
  fork_hooks :: "nat list"
  warned :: "string list"

text \<open>
  What the module imports from elsewhere is a parameter of the model:
  \<^item> \<open>get_rng\<close>: \<^verbatim>\<open>utils.get_rng(obj)\<close>, a fresh generator derived from the object and
    from the moment of the call (here: how many generators were made before);
  \<^item> \<open>uniform\<close>: \<^verbatim>\<open>RandomState.uniform(low, high, size)\<close>, the sample and the advanced
    generator;
  \<^item> \<open>check_dtype\<close>: \<^verbatim>\<open>image.check_dtype(img)\<close>, \<open>None\<close> when the image passes and the
    exception it raises otherwise;
  \<^item> \<open>ndim\<close>: the number of axes of an image;
  \<^item> \<open>has_register_at_fork\<close>: whether \<^verbatim>\<open>os.register_at_fork\<close> exists on the platform;
  \<^item> \<open>object_repr\<close>: \<^verbatim>\<open>object.__repr__\<close>, from the class name and the identity.
\<close>

record ('r, 'x, 'i) ext =
  get_rng :: "nat \<Rightarrow> nat \<Rightarrow> 'r"
  uniform :: "'r \<Rightarrow> pynum \<Rightarrow> pynum \<Rightarrow> nat list \<Rightarrow> 'x \<times> 'r"
  check_dtype :: "'i \<Rightarrow> exc option"
  ndim :: "'i \<Rightarrow> nat"
  has_register_at_fork :: bool
  object_repr :: "string \<Rightarrow> nat \<Rightarrow> string"

subsection \<open>Computations: a result or an exception, and the world afterwards\<close>

type_synonym ('r, 'a) comp = "'r world \<Rightarrow> (exc + 'a) \<times> 'r world"

definition ret :: "'a \<Rightarrow> ('r, 'a) comp" where
  "ret x = (\<lambda>w. (Inr x, w))"

definition raise_exc :: "exc \<Rightarrow> ('r, 'a) comp" where
  "raise_exc e = (\<lambda>w. (Inl e, w))"

definition bnd :: "('r, 'a) comp \<Rightarrow> ('a \<Rightarrow> ('r, 'b) comp) \<Rightarrow> ('r, 'b) comp" where
  "bnd m f = (\<lambda>w. case m w of (Inl e, w') \<Rightarrow> (Inl e, w') | (Inr x, w') \<Rightarrow> f x w')"

text \<open>
  \<^verbatim>\<open>try: return m  except AttributeError: pass\<close> followed by \<open>h\<close>: the result of \<open>m\<close>
  unless \<open>m\<close> raises \<^verbatim>\<open>AttributeError\<close>; every other exception propagates. What \<open>m\<close>
  did to the world before it raised stays done.
\<close>

definition except_AttributeError :: "('r, 'a) comp \<Rightarrow> ('r, 'a) comp \<Rightarrow> ('r, 'a) comp" where
  "except_AttributeError m h =
     (\<lambda>w. case m w of (r, w') \<Rightarrow> if r = Inl AttributeError then h w' else (r, w'))"

text \<open>Calling a method that the object may not have: the lookup raises \<^verbatim>\<open>AttributeError\<close>.\<close>

definition call1 :: "('a \<Rightarrow> ('r, 'b) comp) option \<Rightarrow> 'a \<Rightarrow> ('r, 'b) comp" where
  "call1 h x = (case h of None \<Rightarrow> raise_exc AttributeError | Some f \<Rightarrow> f x)"

definition call2 :: "('a \<Rightarrow> 'p \<Rightarrow> ('r, 'b) comp) option \<Rightarrow> 'a \<Rightarrow> 'p \<Rightarrow> ('r, 'b) comp" where
  "call2 h x p = (case h of None \<Rightarrow> raise_exc AttributeError | Some f \<Rightarrow> f x p)"

section \<open>Transforms\<close>

text \<open>
  Modelled from the spec: the classes of \<^verbatim>\<open>imgaug/transform.py\<close> (\<^verbatim>\<open>TransformFactory\<close>,
  \<^verbatim>\<open>PhotometricTransform\<close>, \<^verbatim>\<open>TransformList\<close>), which this module constructs but does not
  define. A transform exposes "apply to image" and "apply to coordinate set"; the factory
  takes an image-applying closure and a coordinate-applying closure; the photometric kind
  takes a pixel function and its coordinate application is the identity; the list kind is
  an ordered aggregate that applies each stage in order.
\<close>

datatype ('i, 'c, 'r) transform =
    TransformFactory string "'i \<Rightarrow> ('r, 'i) comp" "'c \<Rightarrow> ('r, 'c) comp"
  | PhotometricTransform "'i \<Rightarrow> ('r, 'i) comp" string
  | TransformList "('i, 'c, 'r) transform list"

fun chain :: "('a \<Rightarrow> ('r, 'a) comp) list \<Rightarrow> 'a \<Rightarrow> ('r, 'a) comp" where
  "chain [] x = ret x"
| "chain (f # fs) x = bnd (f x) (chain fs)"

primrec apply_image :: "('i, 'c, 'r) transform \<Rightarrow> 'i \<Rightarrow> ('r, 'i) comp" where
  "apply_image (TransformFactory n f g) = f"
| "apply_image (PhotometricTransform f n) = f"
| "apply_image (TransformList ts) = chain (map apply_image ts)"

primrec apply_coords :: "('i, 'c, 'r) transform \<Rightarrow> 'c \<Rightarrow> ('r, 'c) comp" where
  "apply_coords (TransformFactory n f g) = g"
| "apply_coords (PhotometricTransform f n) = ret"
| "apply_coords (TransformList ts) = chain (map apply_coords ts)"

section \<open>Augmentors\<close>

text \<open>
  A parameter is whatever a sampling hook returns: \<^verbatim>\<open>None\<close>, a transform (some old
  augmentors return one), or any other object, which may or may not have an attribute
  \<^verbatim>\<open>apply_coords\<close>.
\<close>

datatype ('i, 'c, 'v, 'r) param =
    PNone
  | PTransform "('i, 'c, 'r) transform"
  | PObj 'v "('c \<Rightarrow> ('r, 'c) comp) option"

text \<open>
  The hooks a subclass of \<^verbatim>\<open>ImageAugmentor\<close> may define; \<open>None\<close> is "not defined". The
  names with a leading underscore are written with the prefix \<open>priv_\<close>. The base class
  itself defines \<^verbatim>\<open>augment_coords\<close>, so for that field \<open>None\<close> is "not overridden".
\<close>

record ('i, 'c, 'v, 'r) hooks =
  priv_get_augment_params :: "('i \<Rightarrow> ('r, ('i, 'c, 'v, 'r) param) comp) option"
  get_augment_params :: "('i \<Rightarrow> ('r, ('i, 'c, 'v, 'r) param) comp) option"
  priv_augment :: "('i \<Rightarrow> ('i, 'c, 'v, 'r) param \<Rightarrow> ('r, 'i) comp) option"
  priv_augment_coords :: "('c \<Rightarrow> ('i, 'c, 'v, 'r) param \<Rightarrow> ('r, 'c) comp) option"
  augment_coords :: "('c \<Rightarrow> ('i, 'c, 'v, 'r) param \<Rightarrow> ('r, 'c) comp) option"

text \<open>
  What \<^verbatim>\<open>__repr__\<close> reads of an object: its identity, the name of its class, the
  argument specification of its constructor and its attributes. An attribute value is an
  object with an address (\<^verbatim>\<open>is\<close> compares addresses) and a scalar content. The field
  \<^verbatim>\<open>keywords\<close> of the argument specification is written \<open>varkeywords\<close>.
\<close>

datatype pyval = VNone | VBool bool | VInt int

datatype obj = Obj (addr: nat) (val: pyval)

record argspec =
  args :: "string list"
  varargs :: "string option"
  varkeywords :: "string option"
  defaults :: "obj list option"

record meta =
  oid :: nat
  classname :: string
  init_argspec :: argspec
  attrs :: "string \<rightharpoonup> obj"

datatype ('i, 'c, 'v, 'r) augmentor =
    ImageAugmentor meta "('i, 'c, 'v, 'r) hooks"
  | AugmentorList nat "('i, 'c, 'v, 'r) augmentor list"
  | PhotometricAugmentor meta
      "('i \<Rightarrow> ('r, ('i, 'c, 'v, 'r) param) comp) option"
      "('i \<Rightarrow> ('i, 'c, 'v, 'r) param \<Rightarrow> ('r, 'i) comp) option"

fun aug_id :: "('i, 'c, 'v, 'r) augmentor \<Rightarrow> nat" where
  "aug_id (ImageAugmentor m h) = oid m"
| "aug_id (AugmentorList i augs) = i"
| "aug_id (PhotometricAugmentor m gp impl) = oid m"

subsection \<open>The random generator: \<^verbatim>\<open>reset_state\<close>, \<^verbatim>\<open>__init__\<close>, \<^verbatim>\<open>_rand_range\<close>\<close>

text \<open>\<^verbatim>\<open>ImageAugmentor.reset_state\<close>: \<^verbatim>\<open>self.rng = get_rng(self)\<close>.\<close>

definition base_reset_state :: "('r, 'x, 'i) ext \<Rightarrow> nat \<Rightarrow> 'r world \<Rightarrow> 'r world" where
  "base_reset_state X i w =
     w\<lparr>rng := (rng w)(i \<mapsto> get_rng X i (length (rng_calls w))),
       rng_calls := rng_calls w @ [i]\<rparr>"

text \<open>
  \<^verbatim>\<open>a.reset_state()\<close>, dispatched on the class: \<^verbatim>\<open>AugmentorList\<close> overrides it, calls the
  inherited method first and then \<^verbatim>\<open>reset_state\<close> of each contained augmentor in a
  \<^verbatim>\<open>for\<close> loop.
\<close>

fun reset_state :: "('r, 'x, 'i) ext \<Rightarrow> ('i, 'c, 'v, 'r) augmentor \<Rightarrow> 'r world \<Rightarrow> 'r world" where
  "reset_state X (ImageAugmentor m h) w = base_reset_state X (oid m) w"
| "reset_state X (AugmentorList i augs) w =
     fold (reset_state X) augs (base_reset_state X i w)"
| "reset_state X (PhotometricAugmentor m gp impl) w = base_reset_state X (oid m) w"

text \<open>
  \<^verbatim>\<open>ImageAugmentor.__init__\<close>, which all three classes run: \<^verbatim>\<open>self.reset_state()\<close>
  (dispatched), then the registration of the after-fork callback where the platform has
  \<^verbatim>\<open>os.register_at_fork\<close>. (\<^verbatim>\<open>AugmentorList.__init__\<close> first asserts that its argument is
  a list or tuple, which the type of \<open>AugmentorList\<close> states.)
\<close>

definition init :: "('r, 'x, 'i) ext \<Rightarrow> ('i, 'c, 'v, 'r) augmentor \<Rightarrow> 'r world \<Rightarrow> 'r world" where
  "init X a w =
     (let w1 = reset_state X a w
      in if has_register_at_fork X then w1\<lparr>fork_hooks := fork_hooks w1 @ [aug_id a]\<rparr> else w1)"

text \<open>
  \<^verbatim>\<open>_rand_range(self, low=1.0, high=None, size=None)\<close>. An argument that the caller
  leaves out is \<open>None\<close>.
\<close>

definition rand_range ::
  "('r, 'x, 'i) ext \<Rightarrow> nat \<Rightarrow> pynum option \<Rightarrow> pynum option \<Rightarrow> nat list option \<Rightarrow> ('r, 'x) comp" where
  "rand_range X i low_arg high_arg size_arg =
     (\<lambda>w.
        let low0 = (case low_arg of None \<Rightarrow> PyFloat 1 | Some l \<Rightarrow> l);
            (low, high) = (case high_arg of None \<Rightarrow> (PyInt 0, low0) | Some h \<Rightarrow> (low0, h));
            size = (case size_arg of None \<Rightarrow> [] | Some s \<Rightarrow> s)
        in case rng w i of
             None \<Rightarrow> (Inl AttributeError, w)
           | Some r \<Rightarrow>
               (case uniform X r low high size of
                  (x, r') \<Rightarrow> (Inr x, w\<lparr>rng := (rng w)(i \<mapsto> r')\<rparr>)))"

subsection \<open>The default representation: \<^verbatim>\<open>__repr__\<close>\<close>

text \<open>
  Modelled from the spec: \<^verbatim>\<open>utils.argtools.log_once\<close>, which emits a message once: a
  message already emitted is not emitted again.
\<close>

definition log_once :: "string \<Rightarrow> 'r world \<Rightarrow> 'r world" where
  "log_once msg w = (if msg \<in> set (warned w) then w else w\<lparr>warned := warned w @ [msg]\<rparr>)"

text \<open>\<^verbatim>\<open>pprint.pformat\<close> on the scalars of \<open>pyval\<close>: the decimal digits, \<^verbatim>\<open>True\<close>, \<^verbatim>\<open>None\<close>.\<close>

definition digit :: "nat \<Rightarrow> char" where
  "digit d = ''0123456789'' ! d"

fun digits :: "nat \<Rightarrow> string" where
  "digits n = (if n < 10 then [digit n] else digits (n div 10) @ [digit (n mod 10)])"

declare digits.simps [simp del]

fun pformat :: "pyval \<Rightarrow> string" where
  "pformat VNone = ''None''"
| "pformat (VBool b) = (if b then ''True'' else ''False'')"
| "pformat (VInt k) = (if k < 0 then ''-'' @ digits (nat (- k)) else digits (nat k))"

text \<open>\<^verbatim>\<open>sep.join(xs)\<close>.\<close>

fun join :: "string \<Rightarrow> string list \<Rightarrow> string" where
  "join sep [] = []"
| "join sep [x] = x"
| "join sep (x # y # ys) = x @ sep @ join sep (y # ys)"

text \<open>\<^verbatim>\<open>a is b\<close>.\<close>

definition is_same :: "obj \<Rightarrow> obj \<Rightarrow> bool" where
  "is_same a b = (addr a = addr b)"

text \<open>
  \<^verbatim>\<open>argspec.defaults[j]\<close>: subscripting \<^verbatim>\<open>None\<close> raises \<^verbatim>\<open>TypeError\<close>, an index out of
  range raises \<^verbatim>\<open>IndexError\<close>, and a negative index counts from the end.
\<close>

definition default_at :: "obj list option \<Rightarrow> int \<Rightarrow> exc + obj" where
  "default_at ds j =
     (case ds of
        None \<Rightarrow> Inl (OtherError ''TypeError'')
      | Some d \<Rightarrow>
          (let n = int (length d); j' = (if j < 0 then n + j else j)
           in if 0 \<le> j' \<and> j' < n then Inr (d ! nat j') else Inl (OtherError ''IndexError'')))"

text \<open>
  The loop \<^verbatim>\<open>for idx, f in enumerate(fields)\<close> of \<^verbatim>\<open>__repr__\<close>, from position \<open>idx\<close> on,
  with the list \<^verbatim>\<open>argstr\<close> built so far. A failed \<^verbatim>\<open>assert\<close> ends it.
\<close>

fun repr_fields ::
  "string \<Rightarrow> (string \<rightharpoonup> obj) \<Rightarrow> obj list option \<Rightarrow> int \<Rightarrow> nat \<Rightarrow> string list \<Rightarrow> string list
   \<Rightarrow> exc + string list" where
  "repr_fields cn av ds k idx [] argstr = Inr argstr"
| "repr_fields cn av ds k idx (f # fs) argstr =
     (case av f of
        None \<Rightarrow>
          Inl (AssertionError
                (''Attribute '' @ f @ '' in '' @ cn @
                 '' not found! Default __repr__ only works if attributes match the constructor.''))
      | Some attr \<Rightarrow>
          (if k \<le> int idx then
             (case default_at ds (int idx - k) of
                Inl e \<Rightarrow> Inl e
              | Inr d \<Rightarrow>
                  (if is_same attr d then repr_fields cn av ds k (Suc idx) fs argstr
                   else repr_fields cn av ds k (Suc idx) fs
                          (argstr @ [f @ ''='' @ pformat (val attr)])))
           else repr_fields cn av ds k (Suc idx) fs (argstr @ [f @ ''='' @ pformat (val attr)])))"

text \<open>The body of the \<^verbatim>\<open>try\<close> block of \<^verbatim>\<open>__repr__\<close>.\<close>

definition repr_try :: "meta \<Rightarrow> exc + string" where
  "repr_try m =
     (let spec = init_argspec m
      in if varargs spec \<noteq> None then
           Inl (AssertionError ''The default __repr__ doesn't work for varargs!'')
         else if varkeywords spec \<noteq> None then
           Inl (AssertionError ''The default __repr__ doesn't work for kwargs!'')
         else
           (let fields = tl (args spec);
                index_field_has_default =
                  int (length fields)
                  - (case defaults spec of None \<Rightarrow> 0 | Some d \<Rightarrow> int (length d))
            in case repr_fields (classname m) (attrs m) (defaults spec)
                      index_field_has_default 0 fields [] of
                 Inl e \<Rightarrow> Inl e
               | Inr argstr \<Rightarrow>
                   Inr (''imgaug.'' @ classname m @ ''('' @ join '', '' argstr @ '')'')))"

text \<open>
  \<^verbatim>\<open>__repr__\<close> (and \<^verbatim>\<open>__str__\<close>, which is the same function): the handler catches
  \<^verbatim>\<open>AssertionError\<close> only, logs its message once and returns \<^verbatim>\<open>object.__repr__\<close>.
\<close>

definition repr :: "('r, 'x, 'i) ext \<Rightarrow> meta \<Rightarrow> ('r, string) comp" where
  "repr X m =
     (\<lambda>w. case repr_try m of
            Inr s \<Rightarrow> (Inr s, w)
          | Inl (AssertionError msg) \<Rightarrow>
              (Inr (object_repr X (classname m) (oid m)), log_once msg w)
          | Inl e \<Rightarrow> (Inl e, w))"

subsection \<open>\<^verbatim>\<open>get_transform\<close>, \<^verbatim>\<open>augment\<close>, \<^verbatim>\<open>augment_return_tfm\<close>\<close>

text \<open>
  The inherited \<^verbatim>\<open>ImageAugmentor.augment_coords(coords, param)\<close>:
  \<^verbatim>\<open>param.apply_coords(coords)\<close>.
\<close>

definition base_augment_coords :: "'c \<Rightarrow> ('i, 'c, 'v, 'r) param \<Rightarrow> ('r, 'c) comp" where
  "base_augment_coords coords p =
     (case p of
        PNone \<Rightarrow> raise_exc AttributeError
      | PTransform t \<Rightarrow> apply_coords t coords
      | PObj v ac \<Rightarrow> call1 ac coords)"

text \<open>\<^verbatim>\<open>self.augment_coords(coords, p)\<close>: the override if there is one, else the inherited method.\<close>

definition call_augment_coords ::
  "('i, 'c, 'v, 'r) hooks \<Rightarrow> 'c \<Rightarrow> ('i, 'c, 'v, 'r) param \<Rightarrow> ('r, 'c) comp" where
  "call_augment_coords h coords p =
     (case augment_coords h of None \<Rightarrow> base_augment_coords coords p | Some g \<Rightarrow> g coords p)"

text \<open>The local function \<^verbatim>\<open>legacy_augment_coords\<close> of \<^verbatim>\<open>get_transform\<close>.\<close>

definition legacy_augment_coords ::
  "('i, 'c, 'v, 'r) hooks \<Rightarrow> 'c \<Rightarrow> ('i, 'c, 'v, 'r) param \<Rightarrow> ('r, 'c) comp" where
  "legacy_augment_coords h coords p =
     except_AttributeError (call2 (priv_augment_coords h) coords p)
       (except_AttributeError (call_augment_coords h coords p)
          (ret coords))"

text \<open>
  Lines 130 to 138 of \<^verbatim>\<open>get_transform\<close>: \<^verbatim>\<open>p = None\<close>, then the two \<^verbatim>\<open>try\<close> statements,
  each assigning \<^verbatim>\<open>p\<close> when its hook returns.
\<close>

definition resolve_params ::
  "('i, 'c, 'v, 'r) hooks \<Rightarrow> 'i \<Rightarrow> ('r, ('i, 'c, 'v, 'r) param) comp" where
  "resolve_params h img =
     bnd (except_AttributeError (call1 (priv_get_augment_params h) img) (ret PNone))
       (\<lambda>p. except_AttributeError (call1 (get_augment_params h) img) (ret p))"

text \<open>\<^verbatim>\<open>PhotometricAugmentor._get_params\<close>: returns \<^verbatim>\<open>None\<close> unless a subclass overrides it.\<close>

definition get_params ::
  "('i \<Rightarrow> ('r, ('i, 'c, 'v, 'r) param) comp) option \<Rightarrow> 'i \<Rightarrow> ('r, ('i, 'c, 'v, 'r) param) comp" where
  "get_params gp img = (case gp of None \<Rightarrow> ret PNone | Some f \<Rightarrow> f img)"

text \<open>\<^verbatim>\<open>a.get_transform(img)\<close>, dispatched on the class.\<close>

fun get_transform ::
  "('r, 'x, 'i) ext \<Rightarrow> ('i, 'c, 'v, 'r) augmentor \<Rightarrow> 'i \<Rightarrow> ('r, ('i, 'c, 'r) transform) comp" where
  "get_transform X (ImageAugmentor m h) img =
     bnd (resolve_params h img)
       (\<lambda>p. case p of
              PTransform t \<Rightarrow> ret t
            | _ \<Rightarrow>
                bnd (repr X m)
                  (\<lambda>s. ret (TransformFactory (''LegacyConversion -- '' @ s)
                              (\<lambda>img. call2 (priv_augment h) img p)
                              (\<lambda>coords. legacy_augment_coords h coords p))))"
| "get_transform X (AugmentorList i augs) img =
     raise_exc (RuntimeError
       ''Cannot simply get transform of a AugmentorList without running the augmentation!'')"
| "get_transform X (PhotometricAugmentor m gp impl) img =
     bnd (get_params gp img)
       (\<lambda>p. bnd (repr X m)
              (\<lambda>s. ret (PhotometricTransform (\<lambda>img. call2 impl img p) s)))"

text \<open>
  The loop of \<^verbatim>\<open>AugmentorList.augment_return_tfm\<close> over the augmentors still to run, with
  the current image and the list \<^verbatim>\<open>tfms\<close> built so far.
\<close>

fun run_stages ::
  "('r, 'x, 'i) ext \<Rightarrow> ('i, 'c, 'v, 'r) augmentor list \<Rightarrow> 'i \<Rightarrow> ('i, 'c, 'r) transform list
   \<Rightarrow> ('r, 'i \<times> ('i, 'c, 'r) transform list) comp" where
  "run_stages X [] img tfms = ret (img, tfms)"
| "run_stages X (a # as) img tfms =
     bnd (get_transform X a img)
       (\<lambda>t. bnd (apply_image t img)
              (\<lambda>img'. run_stages X as img' (tfms @ [t])))"

text \<open>
  \<^verbatim>\<open>a.augment_return_tfm(img)\<close>: the method of \<^verbatim>\<open>ImageAugmentor\<close>, which
  \<^verbatim>\<open>PhotometricAugmentor\<close> inherits, and the override of \<^verbatim>\<open>AugmentorList\<close>. The failed
  \<^verbatim>\<open>assert img.ndim in [2, 3], img.ndim\<close> carries the number of axes.
\<close>

fun augment_return_tfm ::
  "('r, 'x, 'i) ext \<Rightarrow> ('i, 'c, 'v, 'r) augmentor \<Rightarrow> 'i
   \<Rightarrow> ('r, 'i \<times> ('i, 'c, 'r) transform) comp" where
  "augment_return_tfm X (AugmentorList i augs) img =
     (case check_dtype X img of
        Some e \<Rightarrow> raise_exc e
      | None \<Rightarrow>
          (if ndim X img \<in> set [2, 3] then
             bnd (run_stages X augs img [])
               (\<lambda>(img', tfms). ret (img', TransformList tfms))
           else raise_exc (AssertionError (digits (ndim X img)))))"
| "augment_return_tfm X a img =
     bnd (get_transform X a img)
       (\<lambda>t. bnd (apply_image t img) (\<lambda>img'. ret (img', t)))"

text \<open>
  \<^verbatim>\<open>a.augment(img)\<close>: \<^verbatim>\<open>ImageAugmentor.augment\<close>, and the override of \<^verbatim>\<open>AugmentorList\<close>,
  which is \<^verbatim>\<open>self.augment_return_tfm(d)[0]\<close>.
\<close>

fun augment :: "('r, 'x, 'i) ext \<Rightarrow> ('i, 'c, 'v, 'r) augmentor \<Rightarrow> 'i \<Rightarrow> ('r, 'i) comp" where
  "augment X (AugmentorList i augs) d =
     bnd (augment_return_tfm X (AugmentorList i augs) d) (\<lambda>r. ret (fst r))"
| "augment X a img = bnd (get_transform X a img) (\<lambda>t. apply_image t img)"

section \<open>Reference definitions used to state the properties\<close>



section \<open>Concrete inputs\<close>

text \<open>
  A small instance of the parameters: the generator is a counter that remembers who it was
  made for and when, a sample records the generator and the arguments of the draw, an
  image is its number of axes and one pixel value, every element type passes.
\<close>

definition demo_ext :: "(nat, nat \<times> pynum \<times> pynum \<times> nat list, nat \<times> int) ext" where
  "demo_ext =
     \<lparr>get_rng = (\<lambda>i t. 100 * i + t),
      uniform = (\<lambda>r lo hi sz. ((r, lo, hi, sz), Suc r)),
      check_dtype = (\<lambda>img. None),
      ndim = fst,
      has_register_at_fork = True,
      object_repr = (\<lambda>cn i. ''<'' @ cn @ '' object>'')\<rparr>"

definition empty_world :: "nat world" where
  "empty_world = \<lparr>rng = Map.empty, rng_calls = [], fork_hooks = [], warned = []\<rparr>"

definition no_hooks :: "(nat \<times> int, int, nat, nat) hooks" where
  "no_hooks =
     \<lparr>priv_get_augment_params = None, get_augment_params = None, priv_augment = None,
      priv_augment_coords = None, augment_coords = None\<rparr>"

definition true_obj :: obj where "true_obj = Obj 1 (VBool True)"
definition false_obj :: obj where "false_obj = Obj 2 (VBool False)"

definition rotation_meta :: "nat \<Rightarrow> obj \<Rightarrow> meta" where
  "rotation_meta i clip =
     \<lparr>oid = i, classname = ''Rotation'',
      init_argspec =
        \<lparr>args = [''self'', ''angle'', ''clip''], varargs = None, varkeywords = None,
         defaults = Some [true_obj]\<rparr>,
      attrs = [''angle'' \<mapsto> Obj 50 (VInt 30), ''clip'' \<mapsto> clip]\<rparr>"

definition plain_aug :: "nat \<Rightarrow> (nat \<times> int, int, nat, nat) augmentor" where
  "plain_aug i = ImageAugmentor (rotation_meta i true_obj) no_hooks"

section \<open>Properties\<close>

subsection \<open>Laws of sequencing\<close>

lemma bnd_ret: "bnd (ret x) f = f x"
  by (simp add: bnd_def ret_def)

lemma bnd_raise: "bnd (raise_exc e) f = raise_exc e"
  by (simp add: bnd_def raise_exc_def)

lemma bnd_ret_right: "bnd m ret = m"
  by (rule ext) (simp add: bnd_def ret_def split: prod.splits sum.splits)

lemma bnd_assoc: "bnd (bnd m f) g = bnd m (\<lambda>x. bnd (f x) g)"
  by (rule ext) (simp add: bnd_def split: prod.splits sum.splits)

lemma bnd_apply_Inr: "m w = (Inr x, w') \<Longrightarrow> bnd m f w = f x w'"
  by (simp add: bnd_def)

lemma bnd_apply_Inl: "m w = (Inl e, w') \<Longrightarrow> bnd m f w = (Inl e, w')"
  by (simp add: bnd_def)

lemma except_ret: "except_AttributeError (ret x) h = ret x"
  by (simp add: except_AttributeError_def ret_def)

lemma except_raise_attr: "except_AttributeError (raise_exc AttributeError) h = h"
  by (simp add: except_AttributeError_def raise_exc_def)

subsection \<open>The generator attribute\<close>

lemma dom_base_reset_state: "dom (rng (base_reset_state X i w)) = insert i (dom (rng w))"
  by (simp add: base_reset_state_def)

lemma dom_fold_mono:
  assumes "\<And>b w0. b \<in> set bs \<Longrightarrow> dom (rng w0) \<subseteq> dom (rng (f b w0))"
  shows "dom (rng w) \<subseteq> dom (rng (fold f bs w))"
  using assms
proof (induction bs arbitrary: w)
  case Nil
  then show ?case by simp
next
  case (Cons b bs)
  have "dom (rng w) \<subseteq> dom (rng (f b w))"
    using Cons.prems by simp
  also have "\<dots> \<subseteq> dom (rng (fold f bs (f b w)))"
    using Cons.prems by (intro Cons.IH) simp
  finally show ?case by simp
qed

lemma dom_reset_state_mono: "dom (rng w) \<subseteq> dom (rng (reset_state X a w))"
proof (induction X a w rule: reset_state.induct)
  case (2 X i augs w)
  have "dom (rng w) \<subseteq> dom (rng (base_reset_state X i w))"
    by (auto simp: dom_base_reset_state)
  also have "\<dots> \<subseteq> dom (rng (fold (reset_state X) augs (base_reset_state X i w)))"
    using "2.IH" by (intro dom_fold_mono) blast
  finally show ?case by simp
qed (auto simp: dom_base_reset_state)

lemma dom_reset_state_own: "aug_id a \<in> dom (rng (reset_state X a w))"
proof (cases a)
  case (AugmentorList i augs)
  have "i \<in> dom (rng (base_reset_state X i w))"
    by (simp add: dom_base_reset_state)
  moreover have "dom (rng (base_reset_state X i w))
      \<subseteq> dom (rng (fold (reset_state X) augs (base_reset_state X i w)))"
    by (intro dom_fold_mono dom_reset_state_mono)
  ultimately show ?thesis using AugmentorList by auto
qed (simp_all add: dom_base_reset_state)

lemma rng_init: "rng (init X a w) = rng (reset_state X a w)"
  by (simp add: init_def Let_def)

lemma rand_range_unset: "rng w i = None \<Longrightarrow> rand_range X i lo hi sz w = (Inl AttributeError, w)"
  by (simp add: rand_range_def Let_def split: option.splits prod.splits)

lemma rand_range_bound:
  "rng w i = Some r \<Longrightarrow> \<exists>x r'. rand_range X i lo hi sz w = (Inr x, w\<lparr>rng := (rng w)(i \<mapsto> r')\<rparr>)"
  by (auto simp: rand_range_def Let_def case_prod_beta split: option.splits)







subsection \<open>Claims\<close>

text \<open>
  C5. For every augmentor list and every image, whatever its content, shape or type,
  \<^verbatim>\<open>get_transform\<close> called on the list raises \<^verbatim>\<open>RuntimeError\<close>, and leaves the world as
  it was.
\<close>

theorem list_get_transform_raises:
  "get_transform X (AugmentorList i augs) img w =
     (Inl (RuntimeError
        ''Cannot simply get transform of a AugmentorList without running the augmentation!''), w)"
  by (simp add: raise_exc_def)



text \<open>
  C9, as stated, fails: two augmentors constructed the same way and never reset
  explicitly both draw successfully, because the constructor itself calls
  \<^verbatim>\<open>reset_state\<close>.
\<close>

theorem constructed_rng_counterexample:
  "fst (rand_range demo_ext 7 None None None
         (init demo_ext (plain_aug 8) (init demo_ext (plain_aug 7) empty_world)))
     = Inr (700, PyInt 0, PyFloat 1, [])
   \<and> fst (rand_range demo_ext 8 None None None
         (init demo_ext (plain_aug 8) (init demo_ext (plain_aug 7) empty_world)))
     = Inr (801, PyInt 0, PyFloat 1, [])"
  by (simp add: rand_range_def init_def demo_ext_def empty_world_def plain_aug_def
      rotation_meta_def base_reset_state_def)

text \<open>
  C9, amended. A constructed augmentor owns a generator, so a draw succeeds straight after
  construction as well as after an explicit \<^verbatim>\<open>reset_state\<close>; a draw fails, with
  \<^verbatim>\<open>AttributeError\<close> and no change to the world, exactly on an object whose generator
  attribute was never set.
\<close>

theorem rng_lifecycle:
  "(\<exists>x w'. rand_range X (aug_id a) lo hi sz (init X a w) = (Inr x, w'))
   \<and> (\<exists>x w'. rand_range X (aug_id a) lo hi sz (reset_state X a w) = (Inr x, w'))
   \<and> (rng w i = None \<longrightarrow> rand_range X i lo hi sz w = (Inl AttributeError, w))"
proof -
  obtain r where r: "rng (reset_state X a w) (aug_id a) = Some r"
    using dom_reset_state_own [of a X w] by auto
  then have r': "rng (init X a w) (aug_id a) = Some r"
    by (simp add: rng_init)
  show ?thesis
    using rand_range_bound [OF r, of X lo hi sz] rand_range_bound [OF r', of X lo hi sz]
      rand_range_unset [of w i X lo hi sz]
    by blast
qed

text \<open>On the empty world object 7 has no generator and the draw raises; once constructed it draws.\<close>

theorem rng_lifecycle_witness:
  "rng empty_world 7 = None
   \<and> rand_range demo_ext 7 None None None empty_world = (Inl AttributeError, empty_world)
   \<and> (\<exists>x w'. rand_range demo_ext 7 None None None (init demo_ext (plain_aug 7) empty_world)
               = (Inr x, w'))"
proof -
  have e: "rng empty_world 7 = None"
    by (simp add: empty_world_def)
  have i: "aug_id (plain_aug 7) = 7"
    by (simp add: plain_aug_def rotation_meta_def)
  show ?thesis
    using e i rng_lifecycle [of demo_ext "plain_aug 7" None None None empty_world 7]
    by simp
qed




end
